theory Spec2Isabelle
  imports Complex_Main
begin

section \<open>JSON values, Python strings and dictionaries\<close>

text \<open>
  Request payloads and column values are JSON values as Python's \<open>json\<close> module reads
  them. Numbers are exact rationals (Python's \<open>int\<close> and \<open>float\<close> are not told apart and
  floating-point rounding error is not modelled). Strings are HOL strings; the letter-case
  functions map the ASCII letters, which is what \<open>str.upper\<close> and \<open>str.lower\<close> do on
  every string that they send to one of the four words the handlers compare with.
\<close>

datatype json =
    JNull
  | JBool bool
  | JNum rat
  | JStr string
  | JArr "json list"
  | JObj "(string \<times> json) list"

datatype py_error = KeyError | AttributeError | TypeError

text \<open>A dictionary is the list of its items in iteration order; its keys are distinct.\<close>

type_synonym payload = "(string \<times> json) list"

definition is_dict :: "payload \<Rightarrow> bool" where
  "is_dict d = distinct (map fst d)"

text \<open>\<open>k in d\<close>\<close>

definition has_key :: "payload \<Rightarrow> string \<Rightarrow> bool" where
  "has_key d k = (map_of d k \<noteq> None)"

text \<open>\<open>d[k]\<close>, which raises \<open>KeyError\<close> on a missing key\<close>

definition subscript :: "payload \<Rightarrow> string \<Rightarrow> py_error + json" where
  "subscript d k = (case map_of d k of None \<Rightarrow> Inl KeyError | Some v \<Rightarrow> Inr v)"

text \<open>\<open>d.get(k)\<close>, which is \<open>None\<close> on a missing key\<close>

definition dict_get :: "payload \<Rightarrow> string \<Rightarrow> json" where
  "dict_get d k = (case map_of d k of None \<Rightarrow> JNull | Some v \<Rightarrow> v)"

text \<open>Python's truth value of a JSON value, as \<open>if v:\<close> and \<open>v and ...\<close> test it.\<close>

fun truthy :: "json \<Rightarrow> bool" where
  "truthy JNull = False"
| "truthy (JBool b) = b"
| "truthy (JNum r) = (r \<noteq> 0)"
| "truthy (JStr s) = (s \<noteq> [])"
| "truthy (JArr xs) = (xs \<noteq> [])"
| "truthy (JObj kvs) = (kvs \<noteq> [])"

definition upper_char :: "char \<Rightarrow> char" where
  "upper_char c =
     (let n = (of_char c :: nat) in if 97 \<le> n \<and> n \<le> 122 then char_of (n - 32) else c)"

definition lower_char :: "char \<Rightarrow> char" where
  "lower_char c =
     (let n = (of_char c :: nat) in if 65 \<le> n \<and> n \<le> 90 then char_of (n + 32) else c)"

definition upper :: "string \<Rightarrow> string" where
  "upper s = map upper_char s"

definition lower :: "string \<Rightarrow> string" where
  "lower s = map lower_char s"

text \<open>\<open>v.upper()\<close> and \<open>v.lower()\<close> on a JSON value: only a string has the method.\<close>

definition str_upper :: "json \<Rightarrow> py_error + string" where
  "str_upper v = (case v of JStr s \<Rightarrow> Inr (upper s) | _ \<Rightarrow> Inl AttributeError)"

definition str_lower :: "json \<Rightarrow> py_error + string" where
  "str_lower v = (case v of JStr s \<Rightarrow> Inr (lower s) | _ \<Rightarrow> Inl AttributeError)"

text \<open>\<open>sep.join(xs)\<close>\<close>

fun join :: "string \<Rightarrow> string list \<Rightarrow> string" where
  "join sep [] = []"
| "join sep [x] = x"
| "join sep (x # y # ys) = x @ sep @ join sep (y # ys)"

text \<open>An exception raised in a step skips the steps after it.\<close>

definition bind_exn :: "py_error + 'a \<Rightarrow> ('a \<Rightarrow> py_error + 'b) \<Rightarrow> py_error + 'b" where
  "bind_exn m f = (case m of Inl e \<Rightarrow> Inl e | Inr v \<Rightarrow> f v)"

section \<open>The Part table\<close>

text \<open>
  A row of the table, one field per column of \<open>class Part\<close>. The persistence engine is
  taken as a store that gives back the column values it was given.
\<close>

record part =
  part_id :: int
  name :: json
  part_type :: json
  release_date :: json
  core_clock :: json
  boost_clock :: json
  clock_unit :: json
  price :: json
  TDP :: json
  part_no :: json

text \<open>\<open>Part.__init__\<close>; the primary key is filled in when the row is committed.\<close>

definition Part_init ::
  "json \<Rightarrow> json \<Rightarrow> json \<Rightarrow> json \<Rightarrow> json \<Rightarrow> json \<Rightarrow> json \<Rightarrow> json \<Rightarrow> json \<Rightarrow> int \<Rightarrow> part" where
  "Part_init name_v type_v release_date_v core_clock_v boost_clock_v clock_unit_v price_v
      TDP_v part_no_v i =
     \<lparr>part_id = i, name = name_v, part_type = type_v, release_date = release_date_v,
      core_clock = core_clock_v, boost_clock = boost_clock_v, clock_unit = clock_unit_v,
      price = price_v, TDP = TDP_v, part_no = part_no_v\<rparr>"

text \<open>The table: its rows in the order \<open>Part.query.all()\<close> returns them.\<close>

type_synonym storage = "part list"

text \<open>\<open>Part.query.get(id)\<close>\<close>

definition query_get :: "storage \<Rightarrow> int \<Rightarrow> part option" where
  "query_get db i = find (\<lambda>p. part_id p = i) db"

text \<open>The integer primary key of a new row: one more than the largest key in the table.\<close>

definition next_id :: "storage \<Rightarrow> int" where
  "next_id db = fold max (map part_id db) 0 + 1"

text \<open>\<open>db.session.add(new_part); db.session.commit()\<close>\<close>

definition session_add :: "storage \<Rightarrow> (int \<Rightarrow> part) \<Rightarrow> part \<times> storage" where
  "session_add db mk = (let new_part = mk (next_id db) in (new_part, db @ [new_part]))"

text \<open>\<open>db.session.commit()\<close> after the attributes of a loaded row were assigned.\<close>

definition session_update :: "storage \<Rightarrow> part \<Rightarrow> storage" where
  "session_update db p = map (\<lambda>q. if part_id q = part_id p then p else q) db"

text \<open>\<open>db.session.delete(part); db.session.commit()\<close>\<close>

definition session_delete :: "storage \<Rightarrow> part \<Rightarrow> storage" where
  "session_delete db p = filter (\<lambda>q. part_id q \<noteq> part_id p) db"

text \<open>\<open>part_schema.dump(part)\<close>: the fields of \<open>PartScehma.Meta.fields\<close>, in that order.\<close>

definition part_schema_dump :: "part \<Rightarrow> payload" where
  "part_schema_dump p =
     [(''id'', JNum (of_int (part_id p))), (''name'', name p), (''type'', part_type p),
      (''release_date'', release_date p), (''core_clock'', core_clock p),
      (''boost_clock'', boost_clock p), (''clock_unit'', clock_unit p),
      (''price'', price p), (''TDP'', TDP p), (''part_no'', part_no p)]"

section \<open>Responses\<close>

text \<open>A response is the JSON body and the HTTP status code.\<close>

type_synonym response = "json \<times> nat"

definition part_not_found :: response where
  "part_not_found = (JObj [(''status'', JNum 1), (''message'', JStr ''Part not found.'')], 404)"

text \<open>
  The message of \<open>part_type_invalid\<close> quotes the two words with the typographic quotation
  marks U+2018 and U+2019, here in their UTF-8 bytes.
\<close>

definition lquote :: string where
  "lquote = [CHR 0xE2, CHR 0x80, CHR 0x98]"

definition rquote :: string where
  "rquote = [CHR 0xE2, CHR 0x80, CHR 0x99]"

definition part_type_invalid :: response where
  "part_type_invalid =
     (JObj [(''status'', JNum 1),
            (''message'', JStr (''Invalid type. Valid choices are '' @ lquote @ ''CPU'' @ rquote
                                 @ '' and '' @ lquote @ ''GPU'' @ rquote @ ''.''))], 400)"

definition id_supplied_error :: response where
  "id_supplied_error =
     (JObj [(''status'', JNum 1), (''message'', JStr ''Client cannot supply id.'')], 400)"

section \<open>The request hook\<close>

record request =
  http_method :: string
  path :: string

text \<open>\<open>request.path.startswith(prefix)\<close>\<close>

definition startswith :: "string \<Rightarrow> string \<Rightarrow> bool" where
  "startswith s pre = (take (length pre) s = pre)"

text \<open>
  \<open>validate_request\<close> runs before every request; \<open>None\<close> is Python's \<open>None\<close>, with which
  the request goes on to its handler.
\<close>

definition validate_request :: "request \<Rightarrow> response option" where
  "validate_request req =
     (if http_method req \<notin> set [''PUT'', ''POST'', ''GET'', ''PATCH'', ''DELETE'']
         \<and> startswith (path req) ''/parts''
      then Some (JObj [(''status'', JNum 1),
                       (''message'', JStr ''405 Method Not Allowed Allow: GET, POST, PUT, PATCH, DELETE'')],
                 405)
      else None)"

text \<open>
  The framework calls the hooks registered with \<open>before_request\<close> first and dispatches
  to the handler of the route only when they return \<open>None\<close>. The routing itself belongs to
  the framework and is a parameter here.
\<close>

definition full_dispatch_request ::
  "(request \<Rightarrow> storage \<Rightarrow> py_error + (response \<times> storage)) \<Rightarrow> request \<Rightarrow> storage
     \<Rightarrow> py_error + (response \<times> storage)" where
  "full_dispatch_request dispatch_request req db =
     (case validate_request req of
        Some rv \<Rightarrow> Inr (rv, db)
      | None \<Rightarrow> dispatch_request req db)"

section \<open>The handlers\<close>

text \<open>
  A handler takes the table and returns the response with the table after the request,
  or the exception that it raised, in which case nothing was committed.
\<close>

definition required_fields :: "string list" where
  "required_fields =
     [''name'', ''type'', ''release_date'', ''core_clock'', ''clock_unit'', ''price'', ''TDP'',
      ''part_no'']"

definition add_part :: "storage \<Rightarrow> payload \<Rightarrow> py_error + (response \<times> storage)" where
  "add_part db request_json =
     (let missing_fields = filter (\<lambda>field. \<not> has_key request_json field) required_fields in
      if missing_fields \<noteq> [] then
        Inr ((JObj [(''status'', JNum 1),
                    (''message'', JStr (''Missing required fields: '' @ join '', '' missing_fields))],
              400), db)
      else if has_key request_json ''id'' then Inr (id_supplied_error, db)
      else
        bind_exn (subscript request_json ''name'') (\<lambda>name_v.
        bind_exn (subscript request_json ''type'') (\<lambda>type_v.
        bind_exn (subscript request_json ''release_date'') (\<lambda>release_date_v.
        bind_exn (subscript request_json ''core_clock'') (\<lambda>core_clock_v.
        bind_exn (subscript request_json ''clock_unit'') (\<lambda>clock_unit_v.
        bind_exn (subscript request_json ''price'') (\<lambda>price_v.
        bind_exn (subscript request_json ''TDP'') (\<lambda>TDP_v.
        bind_exn (subscript request_json ''part_no'') (\<lambda>part_no_v.
        bind_exn (if has_key request_json ''boost_clock''
                  then subscript request_json ''boost_clock'' else Inr JNull) (\<lambda>boost_clock_v.
        if type_v \<notin> set [JStr ''CPU'', JStr ''GPU''] then Inr (part_type_invalid, db)
        else
          (let (new_part, db') =
                 session_add db
                   (Part_init name_v type_v release_date_v core_clock_v boost_clock_v
                      clock_unit_v price_v TDP_v part_no_v)
           in Inr ((JObj [(''status'', JNum 0), (''message'', JStr ''New part added''),
                          (''id'', JNum (of_int (part_id new_part)))], 200), db'))))))))))))"

definition get_part_by_id :: "storage \<Rightarrow> int \<Rightarrow> py_error + (response \<times> storage)" where
  "get_part_by_id db i =
     (case query_get db i of
        None \<Rightarrow> Inr (part_not_found, db)
      | Some p \<Rightarrow> Inr ((JObj ((''status'', JNum 0) # part_schema_dump p), 200), db))"

definition update_part :: "storage \<Rightarrow> int \<Rightarrow> payload \<Rightarrow> py_error + (response \<times> storage)" where
  "update_part db i data =
     (case query_get db i of
        None \<Rightarrow> Inr (part_not_found, db)
      | Some p \<Rightarrow>
          if has_key data ''id'' then Inr (id_supplied_error, db)
          else
            (let missing_fields = filter (\<lambda>field. \<not> has_key data field) required_fields in
             if missing_fields \<noteq> [] then
               Inr ((JObj [(''status'', JNum 1),
                           (''message'', JStr (''Missing fields: '' @ join '', '' missing_fields))],
                     400), db)
             else
               bind_exn (if truthy (dict_get data ''type'')
                         then bind_exn (subscript data ''type'') (\<lambda>v.
                              bind_exn (str_upper v) (\<lambda>u. Inr (u \<notin> set [''CPU'', ''GPU''])))
                         else Inr False) (\<lambda>invalid.
               if invalid then Inr (part_type_invalid, db)
               else
                 bind_exn (subscript data ''name'') (\<lambda>name_v.
                 bind_exn (subscript data ''type'') (\<lambda>type_v.
                 bind_exn (subscript data ''release_date'') (\<lambda>release_date_v.
                 bind_exn (subscript data ''core_clock'') (\<lambda>core_clock_v.
                 bind_exn (subscript data ''clock_unit'') (\<lambda>clock_unit_v.
                 bind_exn (subscript data ''price'') (\<lambda>price_v.
                 bind_exn (subscript data ''TDP'') (\<lambda>TDP_v.
                 bind_exn (subscript data ''part_no'') (\<lambda>part_no_v.
                 Inr ((JObj [(''status'', JNum 0), (''message'', JStr ''Part details updated'')],
                       200),
                      session_update db
                        (p\<lparr>name := name_v, part_type := type_v, release_date := release_date_v,
                           core_clock := core_clock_v, boost_clock := dict_get data ''boost_clock'',
                           clock_unit := clock_unit_v, price := price_v, TDP := TDP_v,
                           part_no := part_no_v\<rparr>)))))))))))))"

text \<open>One turn of the loop over \<open>data.items()\<close> in \<open>modify_part\<close>.\<close>

definition set_field :: "part \<Rightarrow> string \<times> json \<Rightarrow> part" where
  "set_field p kv =
     (let key = fst kv; v = snd kv in
      if key = ''name'' then p\<lparr>name := v\<rparr>
      else if key = ''type'' then p\<lparr>part_type := v\<rparr>
      else if key = ''release_date'' then p\<lparr>release_date := v\<rparr>
      else if key = ''core_clock'' then p\<lparr>core_clock := v\<rparr>
      else if key = ''boost_clock'' then p\<lparr>boost_clock := v\<rparr>
      else if key = ''clock_unit'' then p\<lparr>clock_unit := v\<rparr>
      else if key = ''price'' then p\<lparr>price := v\<rparr>
      else if key = ''TDP'' then p\<lparr>TDP := v\<rparr>
      else if key = ''part_no'' then p\<lparr>part_no := v\<rparr>
      else p)"

definition modify_part :: "storage \<Rightarrow> int \<Rightarrow> payload \<Rightarrow> py_error + (response \<times> storage)" where
  "modify_part db i data =
     (case query_get db i of
        None \<Rightarrow> Inr (part_not_found, db)
      | Some p \<Rightarrow>
          if has_key data ''id'' then Inr (id_supplied_error, db)
          else
            bind_exn (if has_key data ''type''
                      then bind_exn (subscript data ''type'') (\<lambda>v.
                           bind_exn (str_lower v) (\<lambda>l. Inr (l \<notin> set [''cpu'', ''gpu''])))
                      else Inr False) (\<lambda>invalid.
            if invalid then Inr (part_type_invalid, db)
            else
              Inr ((JObj [(''status'', JNum 0), (''message'', JStr ''Part modified'')], 200),
                   session_update db (foldl set_field p data))))"

definition delete_part :: "storage \<Rightarrow> int \<Rightarrow> py_error + (response \<times> storage)" where
  "delete_part db i =
     (case query_get db i of
        None \<Rightarrow> Inr (part_not_found, db)
      | Some p \<Rightarrow>
          Inr ((JObj [(''status'', JNum 0), (''message'', JStr ''Part deleted'')], 200),
               session_delete db p))"

section \<open>Listing with a type filter\<close>

text \<open>
  The SQL operator \<open>LIKE\<close>: in the pattern \<open>%\<close> stands for any run of characters and \<open>_\<close>
  for any one character.
\<close>

fun like_match :: "string \<Rightarrow> string \<Rightarrow> bool" where
  "like_match [] s = (s = [])"
| "like_match (p # ps) [] = (p = CHR ''%'' \<and> like_match ps [])"
| "like_match (p # ps) (c # cs) =
     (if p = CHR ''%'' then like_match ps (c # cs) \<or> like_match (p # ps) cs
      else (p = CHR ''_'' \<or> p = c) \<and> like_match ps cs)"

text \<open>
  \<open>Part.type.ilike(pattern)\<close>: \<open>LIKE\<close> on the column and the pattern in lower case. A
  column that holds no string matches nothing.
\<close>

definition ilike :: "json \<Rightarrow> string \<Rightarrow> bool" where
  "ilike col pat = (case col of JStr s \<Rightarrow> like_match (lower pat) (lower s) | _ \<Rightarrow> False)"

text \<open>The value of a JSON number in Python arithmetic; \<open>bool\<close> is a subclass of \<open>int\<close>.\<close>

definition num_value :: "json \<Rightarrow> py_error + rat" where
  "num_value v =
     (case v of JNum r \<Rightarrow> Inr r | JBool b \<Rightarrow> Inr (if b then 1 else 0) | _ \<Rightarrow> Inl TypeError)"

text \<open>\<open>sum(...)\<close>: the values are added one after the other to the start value.\<close>

fun py_sum :: "json list \<Rightarrow> rat \<Rightarrow> py_error + rat" where
  "py_sum [] acc = Inr acc"
| "py_sum (v # vs) acc = bind_exn (num_value v) (\<lambda>x. py_sum vs (acc + x))"

text \<open>\<open>round(x, ndigits)\<close> on an exact value: to the nearest, a tie to the even digit.\<close>

definition round_half_even :: "rat \<Rightarrow> int" where
  "round_half_even y =
     (let f = \<lfloor>y\<rfloor>; d = y - of_int f in
      if d < 1 / 2 then f else if 1 / 2 < d then f + 1 else if even f then f else f + 1)"

definition py_round :: "rat \<Rightarrow> nat \<Rightarrow> rat" where
  "py_round x ndigits = of_int (round_half_even (x * 10 ^ ndigits)) / 10 ^ ndigits"

text \<open>The dictionary that \<open>get_part\<close> appends to \<open>result\<close> for a part.\<close>

definition projection :: "part \<Rightarrow> payload" where
  "projection p =
     [(''id'', JNum (of_int (part_id p))), (''name'', name p), (''type'', part_type p),
      (''price'', price p)]"

text \<open>\<open>get_part\<close> from \<open>result = []\<close> on, for the rows that the query returned.\<close>

definition list_response :: "storage \<Rightarrow> part list \<Rightarrow> py_error + (response \<times> storage)" where
  "list_response db all_parts =
     (let result = map projection all_parts;
          number_of_parts = length result
      in bind_exn (if number_of_parts \<noteq> 0
                   then bind_exn (py_sum (map (\<lambda>part. dict_get part ''price'') result) 0)
                          (\<lambda>total_price.
                             Inr (JNum (py_round (total_price / of_nat number_of_parts) 2)))
                   else Inr (JNum 0)) (\<lambda>average_price.
         Inr ((JObj [(''status'', JNum 0), (''total'', JNum (of_nat number_of_parts)),
                     (''average_price'', average_price), (''parts'', JArr (map JObj result))],
               200), db)))"

text \<open>The argument is \<open>request.args.get("type")\<close>.\<close>

definition get_part :: "storage \<Rightarrow> string option \<Rightarrow> py_error + (response \<times> storage)" where
  "get_part db type_arg =
     (case type_arg of
        None \<Rightarrow> list_response db db
      | Some t \<Rightarrow>
          if t \<noteq> [] then
            (if upper t \<notin> set [''GPU'', ''CPU''] then Inr (part_type_invalid, db)
             else list_response db (filter (\<lambda>p. ilike (part_type p) (''%'' @ t @ ''%'')) db))
          else list_response db db)"

section \<open>Sequences of writing requests\<close>

datatype operation =
    Create payload
  | FullUpdate int payload
  | PartialUpdate int payload

text \<open>The table after a request: as the handler left it, or as it was when it raised.\<close>

definition storage_after :: "storage \<Rightarrow> py_error + (response \<times> storage) \<Rightarrow> storage" where
  "storage_after db r = (case r of Inl e \<Rightarrow> db | Inr (resp, db') \<Rightarrow> db')"

fun apply_operation :: "storage \<Rightarrow> operation \<Rightarrow> storage" where
  "apply_operation db (Create data) = storage_after db (add_part db data)"
| "apply_operation db (FullUpdate i data) = storage_after db (update_part db i data)"
| "apply_operation db (PartialUpdate i data) = storage_after db (modify_part db i data)"

definition run_operations :: "storage \<Rightarrow> operation list \<Rightarrow> storage" where
  "run_operations db ops = foldl apply_operation db ops"

fun payload_of :: "operation \<Rightarrow> payload" where
  "payload_of (Create data) = data"
| "payload_of (FullUpdate i data) = data"
| "payload_of (PartialUpdate i data) = data"

text \<open>A type that is exactly one of the two words.\<close>

definition type_ok :: "json \<Rightarrow> bool" where
  "type_ok v = (v \<in> set [JStr ''CPU'', JStr ''GPU''])"

text \<open>A type that is one of the two words in some letter case.\<close>

definition type_ok_nocase :: "json \<Rightarrow> bool" where
  "type_ok_nocase v = (case v of JStr s \<Rightarrow> upper s \<in> set [''CPU'', ''GPU''] | _ \<Rightarrow> False)"

text \<open>A full update whose payload has a type that Python takes as true.\<close>

fun full_update_type_given :: "operation \<Rightarrow> bool" where
  "full_update_type_given (FullUpdate i data) = truthy (dict_get data ''type'')"
| "full_update_type_given _ = True"

section \<open>Example data\<close>

definition example_part :: part where
  "example_part =
     Part_init (JStr ''Ryzen 5'') (JStr ''CPU'') (JNum 2020) (JNum 3600) (JNum 4200)
       (JStr ''MHz'') (JNum 199) (JNum 65) (JStr ''100-000000031'') 1"

definition example_gpu :: part where
  "example_gpu =
     Part_init (JStr ''RTX 3080'') (JStr ''GPU'') (JNum 2020) (JNum 1440) (JNum 1710)
       (JStr ''MHz'') (JNum (6995 / 10)) (JNum 320) (JStr ''10G-P5-3897-KR'') 2"

definition example_payload :: payload where
  "example_payload =
     [(''name'', JStr ''Core i5''), (''type'', JStr ''CPU''), (''release_date'', JNum 2021),
      (''core_clock'', JNum 2900), (''clock_unit'', JStr ''MHz''), (''price'', JNum 180),
      (''TDP'', JNum 65), (''part_no'', JStr ''BX8070811400'')]"

definition lowercase_payload :: payload where
  "lowercase_payload =
     [(''name'', JStr ''Core i5''), (''type'', JStr ''cpu''), (''release_date'', JNum 2021),
      (''core_clock'', JNum 2900), (''clock_unit'', JStr ''MHz''), (''price'', JNum 180),
      (''TDP'', JNum 65), (''part_no'', JStr ''BX8070811400'')]"



definition empty_type_payload :: payload where
  "empty_type_payload =
     [(''name'', JStr ''Core i5''), (''type'', JStr []), (''release_date'', JNum 2021),
      (''core_clock'', JNum 2900), (''clock_unit'', JStr ''MHz''), (''price'', JNum 180),
      (''TDP'', JNum 65), (''part_no'', JStr ''BX8070811400'')]"

definition patch_payload :: payload where
  "patch_payload =
     [(''boost_clock'', JNum 4500), (''type'', JStr ''gpu''), (''colour'', JStr ''red'')]"

section \<open>Properties\<close>

subsection \<open>Evaluating the example table\<close>

lemma query_get_example: "query_get [example_part] 1 = Some example_part"
  by (simp add: query_get_def example_part_def Part_init_def)

lemma query_get_example_absent: "query_get [example_part] 2 = None"
  by (simp add: query_get_def example_part_def Part_init_def)

subsection \<open>Requests for an id that is not in the table\<close>

text \<open>
  C7: for an id that is not in storage, GetById, FullUpdate, PartialUpdate and Delete each
  return 404 with the NotFound envelope (status 1 and a message), and the storage is
  exactly as it was.
\<close>

theorem not_found_unchanged:
  assumes "query_get db i = None"
  shows "get_part_by_id db i = Inr (part_not_found, db)
       \<and> update_part db i data = Inr (part_not_found, db)
       \<and> modify_part db i data = Inr (part_not_found, db)
       \<and> delete_part db i = Inr (part_not_found, db)
       \<and> part_not_found
           = (JObj [(''status'', JNum 1), (''message'', JStr ''Part not found.'')], 404)"
  using assms
  by (simp add: get_part_by_id_def update_part_def modify_part_def delete_part_def
      part_not_found_def)

theorem not_found_unchanged_witness:
  "query_get [example_part] 2 = None
   \<and> get_part_by_id [example_part] 2 = Inr (part_not_found, [example_part])
   \<and> update_part [example_part] 2 example_payload = Inr (part_not_found, [example_part])
   \<and> modify_part [example_part] 2 example_payload = Inr (part_not_found, [example_part])
   \<and> delete_part [example_part] 2 = Inr (part_not_found, [example_part])"
  using not_found_unchanged [OF query_get_example_absent, of example_payload]
    query_get_example_absent
  by simp

subsection \<open>Methods that are not allowed\<close>

text \<open>
  C9: a request whose method is none of GET, POST, PUT, PATCH and DELETE and whose path
  starts with /parts is answered with status 405 and the envelope of status 1 and the
  message "405 Method Not Allowed ..."; the handler that the request would be routed to
  does not run, whatever it is, and the storage is as it was.
\<close>

theorem method_not_allowed:
  assumes "http_method req \<notin> set [''GET'', ''POST'', ''PUT'', ''PATCH'', ''DELETE'']"
    and "startswith (path req) ''/parts''"
  shows "full_dispatch_request dispatch_request req db
         = Inr ((JObj [(''status'', JNum 1),
                       (''message'',
                        JStr ''405 Method Not Allowed Allow: GET, POST, PUT, PATCH, DELETE'')],
                 405), db)"
  using assms by (auto simp add: full_dispatch_request_def validate_request_def)

theorem method_not_allowed_witness:
  "http_method \<lparr>http_method = ''HEAD'', path = ''/parts/1''\<rparr>
      \<notin> set [''GET'', ''POST'', ''PUT'', ''PATCH'', ''DELETE'']
   \<and> startswith (path \<lparr>http_method = ''HEAD'', path = ''/parts/1''\<rparr>) ''/parts''
   \<and> full_dispatch_request (\<lambda>req db. delete_part db 1)
        \<lparr>http_method = ''HEAD'', path = ''/parts/1''\<rparr> [example_part]
      = Inr ((JObj [(''status'', JNum 1),
                    (''message'',
                     JStr ''405 Method Not Allowed Allow: GET, POST, PUT, PATCH, DELETE'')],
              405), [example_part])"
proof -
  have m: "http_method \<lparr>http_method = ''HEAD'', path = ''/parts/1''\<rparr>
      \<notin> set [''GET'', ''POST'', ''PUT'', ''PATCH'', ''DELETE'']"
    by simp
  have p: "startswith (path \<lparr>http_method = ''HEAD'', path = ''/parts/1''\<rparr>) ''/parts''"
    by (simp add: startswith_def)
  show ?thesis
    using m p method_not_allowed [OF m p, of "\<lambda>req db. delete_part db 1" "[example_part]"]
    by simp
qed

subsection \<open>Which error comes first\<close>

text \<open>
  C10: for a payload that has an "id" key and lacks at least one required field, Create
  returns the MissingFields error, as its check for missing fields comes before its check
  for the id, and FullUpdate on an existing id returns the ClientSuppliedId error, as its
  check for the id comes first.
\<close>

theorem error_precedence:
  assumes "has_key data ''id''"
    and "filter (\<lambda>field. \<not> has_key data field) required_fields \<noteq> []"
    and "query_get db i = Some p"
  shows "add_part db data
         = Inr ((JObj [(''status'', JNum 1),
                       (''message'',
                        JStr (''Missing required fields: ''
                              @ join '', ''
                                  (filter (\<lambda>field. \<not> has_key data field) required_fields)))],
                 400), db)
       \<and> update_part db i data = Inr (id_supplied_error, db)"
  using assms by (simp add: add_part_def update_part_def)

theorem error_precedence_witness:
  "has_key [(''id'', JNum 5), (''name'', JStr ''x'')] ''id''
   \<and> filter (\<lambda>field. \<not> has_key [(''id'', JNum 5), (''name'', JStr ''x'')] field)
        required_fields
       = [''type'', ''release_date'', ''core_clock'', ''clock_unit'', ''price'', ''TDP'',
          ''part_no'']
   \<and> query_get [example_part] 1 = Some example_part
   \<and> add_part [example_part] [(''id'', JNum 5), (''name'', JStr ''x'')]
      = Inr ((JObj [(''status'', JNum 1),
                    (''message'',
                     JStr ''Missing required fields: type, release_date, core_clock, clock_unit, price, TDP, part_no'')],
              400), [example_part])
   \<and> update_part [example_part] 1 [(''id'', JNum 5), (''name'', JStr ''x'')]
      = Inr (id_supplied_error, [example_part])"
proof -
  let ?d = "[(''id'', JNum 5), (''name'', JStr ''x'')]"
  have k: "has_key ?d ''id''" by (simp add: has_key_def)
  have f: "filter (\<lambda>field. \<not> has_key ?d field) required_fields
       = [''type'', ''release_date'', ''core_clock'', ''clock_unit'', ''price'', ''TDP'',
          ''part_no'']"
    by (simp add: has_key_def required_fields_def)
  have f': "filter (\<lambda>field. \<not> has_key ?d field) required_fields \<noteq> []"
    by (simp add: f)
  show ?thesis
    using error_precedence [OF k f' query_get_example] k f query_get_example by simp
qed

subsection \<open>Dictionaries and the table\<close>

lemma subscript_has_key: "has_key d k \<Longrightarrow> subscript d k = Inr (dict_get d k)"
  by (auto simp add: has_key_def subscript_def dict_get_def)

lemma no_missing_fields:
  "filter (\<lambda>field. \<not> has_key d field) required_fields = []
   \<longleftrightarrow> (\<forall>field \<in> set required_fields. has_key d field)"
  by (simp add: filter_empty_conv)

lemma required_present:
  assumes "\<forall>field \<in> set required_fields. has_key d field"
  shows "has_key d ''name''" "has_key d ''type''" "has_key d ''release_date''"
    "has_key d ''core_clock''" "has_key d ''clock_unit''" "has_key d ''price''"
    "has_key d ''TDP''" "has_key d ''part_no''"
  using assms by (simp_all add: required_fields_def)

lemma query_get_id: "query_get db i = Some p \<Longrightarrow> part_id p = i"
  by (auto simp add: query_get_def find_Some_iff)

lemma query_get_session_update:
  "query_get db i = Some p \<Longrightarrow> part_id p' = i \<Longrightarrow> query_get (session_update db p') i = Some p'"
  by (induction db) (auto simp add: query_get_def session_update_def split: if_splits)








subsection \<open>The handlers on a payload that passed the checks\<close>

lemma add_part_valid:
  assumes "\<forall>field \<in> set required_fields. has_key data field"
    and "\<not> has_key data ''id''"
  shows "add_part db data =
     (if dict_get data ''type'' \<notin> set [JStr ''CPU'', JStr ''GPU'']
      then Inr (part_type_invalid, db)
      else Inr ((JObj [(''status'', JNum 0), (''message'', JStr ''New part added''),
                       (''id'', JNum (of_int (next_id db)))], 200),
                db @ [Part_init (dict_get data ''name'') (dict_get data ''type'')
                        (dict_get data ''release_date'') (dict_get data ''core_clock'')
                        (dict_get data ''boost_clock'') (dict_get data ''clock_unit'')
                        (dict_get data ''price'') (dict_get data ''TDP'')
                        (dict_get data ''part_no'') (next_id db)]))"
proof -
  have m: "filter (\<lambda>field. \<not> has_key data field) required_fields = []"
    using assms(1) by (simp add: no_missing_fields)
  have b: "(if has_key data ''boost_clock'' then subscript data ''boost_clock'' else Inr JNull)
           = Inr (dict_get data ''boost_clock'')"
    by (auto simp add: has_key_def subscript_def dict_get_def)
  show ?thesis
    unfolding add_part_def Let_def m b
    using assms(2) required_present [OF assms(1)]
    by (simp add: subscript_has_key bind_exn_def session_add_def Part_init_def Let_def)
qed

lemma update_part_checked:
  assumes "query_get db i = Some p"
    and "\<not> has_key data ''id''"
    and "\<forall>field \<in> set required_fields. has_key data field"
  shows "update_part db i data =
     bind_exn (if truthy (dict_get data ''type'')
               then bind_exn (str_upper (dict_get data ''type''))
                      (\<lambda>u. Inr (u \<notin> set [''CPU'', ''GPU'']))
               else Inr False) (\<lambda>invalid.
       if invalid then Inr (part_type_invalid, db)
       else Inr ((JObj [(''status'', JNum 0), (''message'', JStr ''Part details updated'')], 200),
                 session_update db
                   (p\<lparr>name := dict_get data ''name'', part_type := dict_get data ''type'',
                      release_date := dict_get data ''release_date'',
                      core_clock := dict_get data ''core_clock'',
                      boost_clock := dict_get data ''boost_clock'',
                      clock_unit := dict_get data ''clock_unit'',
                      price := dict_get data ''price'', TDP := dict_get data ''TDP'',
                      part_no := dict_get data ''part_no''\<rparr>)))"
proof -
  have m: "filter (\<lambda>field. \<not> has_key data field) required_fields = []"
    using assms(3) by (simp add: no_missing_fields)
  show ?thesis
    unfolding update_part_def Let_def m
    using assms(1,2) required_present [OF assms(3)]
    by (simp add: subscript_has_key bind_exn_def split: sum.splits)
qed


subsection \<open>The loop of the partial update\<close>

lemma set_field_sel:
  "part_id (set_field q kv) = part_id q"
  "name (set_field q kv) = (if fst kv = ''name'' then snd kv else name q)"
  "part_type (set_field q kv) = (if fst kv = ''type'' then snd kv else part_type q)"
  "release_date (set_field q kv) = (if fst kv = ''release_date'' then snd kv else release_date q)"
  "core_clock (set_field q kv) = (if fst kv = ''core_clock'' then snd kv else core_clock q)"
  "boost_clock (set_field q kv) = (if fst kv = ''boost_clock'' then snd kv else boost_clock q)"
  "clock_unit (set_field q kv) = (if fst kv = ''clock_unit'' then snd kv else clock_unit q)"
  "price (set_field q kv) = (if fst kv = ''price'' then snd kv else price q)"
  "TDP (set_field q kv) = (if fst kv = ''TDP'' then snd kv else TDP q)"
  "part_no (set_field q kv) = (if fst kv = ''part_no'' then snd kv else part_no q)"
  by (simp_all add: set_field_def Let_def)


lemma foldl_set_field_id: "part_id (foldl set_field p d) = part_id p"
  by (induction d rule: rev_induct) (simp_all add: set_field_sel)

lemma foldl_set_field_sel:
  assumes step: "\<And>q kv. sel (set_field q kv) = (if fst kv = key then snd kv else sel q)"
    and "distinct (map fst d)"
  shows "sel (foldl set_field p d) = (case map_of d key of Some v \<Rightarrow> v | None \<Rightarrow> sel p)"
  using assms(2)
proof (induction d rule: rev_induct)
  case Nil
  then show ?case by simp
next
  case (snoc kv d)
  from snoc.prems have d: "distinct (map fst d)" and fresh: "fst kv \<notin> fst ` set d"
    by simp_all
  show ?case
  proof (cases "fst kv = key")
    case True
    with fresh have "map_of d key = None"
      by (simp add: map_of_eq_None_iff)
    then show ?thesis
      using True by (cases kv) (simp add: step map_add_def)
  next
    case False
    then show ?thesis
      using snoc.IH [OF d] by (cases kv) (simp add: step map_add_def split: option.splits)
  qed
qed

lemma foldl_set_field_absent:
  assumes step: "\<And>q kv. sel (set_field q kv) = (if fst kv = key then snd kv else sel q)"
    and "map_of d key = None"
  shows "sel (foldl set_field p d) = sel p"
  using assms(2)
proof (induction d rule: rev_induct)
  case Nil
  then show ?case by simp
next
  case (snoc kv d)
  from snoc.prems have "map_of d key = None" and "fst kv \<noteq> key"
    by (cases kv; simp add: map_add_def split: option.splits if_splits)+
  then show ?case
    using snoc.IH by (simp add: step)
qed

lemma modify_part_checked:
  assumes "query_get db i = Some p"
    and "\<not> has_key data ''id''"
  shows "modify_part db i data =
     bind_exn (if has_key data ''type''
               then bind_exn (str_lower (dict_get data ''type''))
                      (\<lambda>l. Inr (l \<notin> set [''cpu'', ''gpu'']))
               else Inr False) (\<lambda>invalid.
       if invalid then Inr (part_type_invalid, db)
       else Inr ((JObj [(''status'', JNum 0), (''message'', JStr ''Part modified'')], 200),
                 session_update db (foldl set_field p data)))"
  using assms by (simp add: modify_part_def subscript_has_key bind_exn_def)


subsection \<open>Letter case\<close>

lemma upper_examples:
  "upper ''CPU'' = ''CPU''" "upper ''GPU'' = ''GPU''" "upper ''cpu'' = ''CPU''" "upper ''gpu'' = ''GPU''"
  "upper ''GP'' = ''GP''"
  by (simp_all add: upper_def upper_char_def char_of_def bit_Suc_0_iff)

lemma lower_examples:
  "lower ''CPU'' = ''cpu''" "lower ''GPU'' = ''gpu''" "lower ''cpu'' = ''cpu''" "lower ''gpu'' = ''gpu''"
  by (simp_all add: lower_def lower_char_def char_of_def bit_Suc_0_iff)

subsection \<open>The example payloads\<close>

lemma example_payload_keys:
  "filter (\<lambda>field. \<not> has_key example_payload field) required_fields = []"
  "\<not> has_key example_payload ''id''"
  "\<not> has_key example_payload ''boost_clock''"
  "dict_get example_payload ''type'' = JStr ''CPU''"
  by (simp_all add: example_payload_def required_fields_def has_key_def dict_get_def)


subsection \<open>Creating a part and reading it back\<close>





subsection \<open>Upper and lower case agree on the two words\<close>

lemma upper_char_letter:
  assumes "97 \<le> (of_char c :: nat)" and "(of_char c :: nat) \<le> 122"
  shows "upper_char c = char_of ((of_char c :: nat) - 32)"
  using assms by (simp add: upper_char_def Let_def)

lemma upper_char_other:
  assumes "\<not> (97 \<le> (of_char c :: nat) \<and> (of_char c :: nat) \<le> 122)"
  shows "upper_char c = c"
  using assms by (auto simp add: upper_char_def Let_def)

lemma lower_char_letter:
  assumes "65 \<le> (of_char c :: nat)" and "(of_char c :: nat) \<le> 90"
  shows "lower_char c = char_of ((of_char c :: nat) + 32)"
  using assms by (simp add: lower_char_def Let_def)

lemma lower_char_other:
  assumes "\<not> (65 \<le> (of_char c :: nat) \<and> (of_char c :: nat) \<le> 90)"
  shows "lower_char c = c"
  using assms by (auto simp add: lower_char_def Let_def)

lemma lower_upper_char: "lower_char (upper_char c) = lower_char c"
proof (cases "97 \<le> (of_char c :: nat) \<and> (of_char c :: nat) \<le> 122")
  case True
  define n where "n = (of_char c :: nat)"
  from True have n: "97 \<le> n" "n \<le> 122" by (simp_all add: n_def)
  have u: "upper_char c = char_of (n - 32)"
    using True by (simp add: upper_char_letter n_def)
  have "(of_char (char_of (n - 32) :: char) :: nat) = (n - 32) mod 256" by simp
  also have "\<dots> = n - 32" using n by simp
  finally have o: "(of_char (char_of (n - 32) :: char) :: nat) = n - 32" .
  have "lower_char (char_of (n - 32)) = char_of ((n - 32) + 32)"
    using n by (simp add: lower_char_letter o)
  also have "(n - 32) + 32 = n" using n by simp
  finally have "lower_char (upper_char c) = c"
    by (simp add: u n_def)
  moreover have "lower_char c = c"
    using n by (simp add: lower_char_other n_def [symmetric])
  ultimately show ?thesis by simp
next
  case False
  then have "upper_char c = c" by (rule upper_char_other)
  then show ?thesis by simp
qed

lemma upper_lower_char: "upper_char (lower_char c) = upper_char c"
proof (cases "65 \<le> (of_char c :: nat) \<and> (of_char c :: nat) \<le> 90")
  case True
  define n where "n = (of_char c :: nat)"
  from True have n: "65 \<le> n" "n \<le> 90" by (simp_all add: n_def)
  have l: "lower_char c = char_of (n + 32)"
    using True by (simp add: lower_char_letter n_def)
  have "(of_char (char_of (n + 32) :: char) :: nat) = (n + 32) mod 256" by simp
  also have "\<dots> = n + 32" using n by simp
  finally have o: "(of_char (char_of (n + 32) :: char) :: nat) = n + 32" .
  have "upper_char (char_of (n + 32)) = char_of ((n + 32) - 32)"
    using n by (simp add: upper_char_letter o)
  then have "upper_char (lower_char c) = c"
    by (simp add: l n_def)
  moreover have "upper_char c = c"
    using n by (simp add: upper_char_other n_def [symmetric])
  ultimately show ?thesis by simp
next
  case False
  then have "lower_char c = c" by (rule lower_char_other)
  then show ?thesis by simp
qed

lemma lower_upper: "lower (upper s) = lower s"
  by (simp add: lower_def upper_def lower_upper_char)

lemma upper_lower: "upper (lower s) = upper s"
  by (simp add: lower_def upper_def upper_lower_char)

lemma upper_valid_iff_lower_valid:
  "upper s \<in> set [''CPU'', ''GPU''] \<longleftrightarrow> lower s \<in> set [''cpu'', ''gpu'']"
proof
  assume "upper s \<in> set [''CPU'', ''GPU'']"
  then have "lower (upper s) \<in> set [''cpu'', ''gpu'']"
    by (auto simp add: lower_examples)
  then show "lower s \<in> set [''cpu'', ''gpu'']" by (simp only: lower_upper)
next
  assume "lower s \<in> set [''cpu'', ''gpu'']"
  then have "upper (lower s) \<in> set [''CPU'', ''GPU'']"
    by (auto simp add: upper_examples)
  then show "upper s \<in> set [''CPU'', ''GPU'']" by (simp only: upper_lower)
qed

subsection \<open>The updates on the example table\<close>

lemma update_part_example:
  "update_part [example_part] 1 example_payload
   = Inr ((JObj [(''status'', JNum 0), (''message'', JStr ''Part details updated'')], 200),
          [Part_init (JStr ''Core i5'') (JStr ''CPU'') (JNum 2021) (JNum 2900) JNull
             (JStr ''MHz'') (JNum 180) (JNum 65) (JStr ''BX8070811400'') 1])"
proof -
  have present: "\<forall>field \<in> set required_fields. has_key example_payload field"
    using example_payload_keys(1) by (simp only: no_missing_fields)
  have v: "dict_get example_payload ''name'' = JStr ''Core i5''"
    "dict_get example_payload ''type'' = JStr ''CPU''"
    "dict_get example_payload ''release_date'' = JNum 2021"
    "dict_get example_payload ''core_clock'' = JNum 2900"
    "dict_get example_payload ''boost_clock'' = JNull"
    "dict_get example_payload ''clock_unit'' = JStr ''MHz''"
    "dict_get example_payload ''price'' = JNum 180"
    "dict_get example_payload ''TDP'' = JNum 65"
    "dict_get example_payload ''part_no'' = JStr ''BX8070811400''"
    by (simp_all add: example_payload_def dict_get_def)
  show ?thesis
    unfolding update_part_checked [OF query_get_example example_payload_keys(2) present] v
    by (simp add: bind_exn_def str_upper_def upper_examples session_update_def example_part_def
        Part_init_def)
qed


lemma modify_part_example:
  "modify_part [example_part] 1 example_payload
   = Inr ((JObj [(''status'', JNum 0), (''message'', JStr ''Part modified'')], 200),
          [Part_init (JStr ''Core i5'') (JStr ''CPU'') (JNum 2021) (JNum 2900) (JNum 4200)
             (JStr ''MHz'') (JNum 180) (JNum 65) (JStr ''BX8070811400'') 1])"
proof -
  have t: "has_key example_payload ''type''"
    by (simp add: example_payload_def has_key_def)
  have f: "foldl set_field example_part example_payload
           = Part_init (JStr ''Core i5'') (JStr ''CPU'') (JNum 2021) (JNum 2900) (JNum 4200)
               (JStr ''MHz'') (JNum 180) (JNum 65) (JStr ''BX8070811400'') 1"
    by (simp add: example_payload_def example_part_def Part_init_def set_field_def)
  show ?thesis
    unfolding modify_part_checked [OF query_get_example example_payload_keys(2)] f
    by (simp add: t example_payload_keys(4) bind_exn_def str_lower_def lower_examples
        session_update_def example_part_def Part_init_def)
qed

subsection \<open>An update that omits the boost clock\<close>

text \<open>
  C8: a successful FullUpdate of an existing part whose payload omits boost_clock sets the
  stored boost_clock to null, and a successful PartialUpdate whose payload omits
  boost_clock leaves the stored boost_clock as it was. This holds whatever the boost_clock
  was before; in the example it is 4200.
\<close>

theorem boost_clock_omitted:
  assumes "query_get db i = Some p"
    and "\<not> has_key data ''boost_clock''"
  shows "(update_part db i data = Inr ((body_f, 200), db_f)
            \<longrightarrow> (\<exists>p'. query_get db_f i = Some p' \<and> boost_clock p' = JNull))
       \<and> (modify_part db i data = Inr ((body_p, 200), db_p)
            \<longrightarrow> (\<exists>p'. query_get db_p i = Some p' \<and> boost_clock p' = boost_clock p))"
proof (intro conjI impI)
  assume ok: "update_part db i data = Inr ((body_f, 200), db_f)"
  let ?p' = "p\<lparr>name := dict_get data ''name'', part_type := dict_get data ''type'',
                release_date := dict_get data ''release_date'',
                core_clock := dict_get data ''core_clock'',
                boost_clock := dict_get data ''boost_clock'',
                clock_unit := dict_get data ''clock_unit'',
                price := dict_get data ''price'', TDP := dict_get data ''TDP'',
                part_no := dict_get data ''part_no''\<rparr>"
  have no_id: "\<not> has_key data ''id''"
    using ok assms(1) by (auto simp add: update_part_def id_supplied_error_def)
  have present: "\<forall>field \<in> set required_fields. has_key data field"
  proof (rule ccontr)
    assume "\<not> ?thesis"
    then have "filter (\<lambda>field. \<not> has_key data field) required_fields \<noteq> []"
      by (simp add: no_missing_fields)
    then show False
      using ok assms(1) no_id by (simp add: update_part_def)
  qed
  have db_f: "db_f = session_update db ?p'"
    using ok unfolding update_part_checked [OF assms(1) no_id present]
    by (auto simp add: bind_exn_def part_type_invalid_def split: sum.splits if_splits)
  have "part_id ?p' = i"
    using query_get_id [OF assms(1)] by simp
  then have "query_get db_f i = Some ?p'"
    unfolding db_f by (rule query_get_session_update [OF assms(1)])
  moreover have "boost_clock ?p' = JNull"
    using assms(2) by (simp add: dict_get_def has_key_def)
  ultimately show "\<exists>p'. query_get db_f i = Some p' \<and> boost_clock p' = JNull"
    by blast
next
  assume ok: "modify_part db i data = Inr ((body_p, 200), db_p)"
  let ?p' = "foldl set_field p data"
  have no_id: "\<not> has_key data ''id''"
    using ok assms(1) by (auto simp add: modify_part_def id_supplied_error_def)
  have db_p: "db_p = session_update db ?p'"
    using ok unfolding modify_part_checked [OF assms(1) no_id]
    by (auto simp add: bind_exn_def part_type_invalid_def split: sum.splits if_splits)
  have "part_id ?p' = i"
    using query_get_id [OF assms(1)] by (simp add: foldl_set_field_id)
  then have "query_get db_p i = Some ?p'"
    unfolding db_p by (rule query_get_session_update [OF assms(1)])
  moreover have "boost_clock ?p' = boost_clock p"
  proof (rule foldl_set_field_absent [where key = "''boost_clock''"])
    show "boost_clock (set_field q kv)
          = (if fst kv = ''boost_clock'' then snd kv else boost_clock q)" for q kv
      by (rule set_field_sel)
    show "map_of data ''boost_clock'' = None"
      using assms(2) by (simp add: has_key_def)
  qed
  ultimately show "\<exists>p'. query_get db_p i = Some p' \<and> boost_clock p' = boost_clock p"
    by blast
qed


theorem boost_clock_omitted_witness:
  "query_get [example_part] 1 = Some example_part
   \<and> \<not> has_key example_payload ''boost_clock''
   \<and> boost_clock example_part = JNum 4200
   \<and> update_part [example_part] 1 example_payload
       = Inr ((JObj [(''status'', JNum 0), (''message'', JStr ''Part details updated'')], 200),
              [Part_init (JStr ''Core i5'') (JStr ''CPU'') (JNum 2021) (JNum 2900) JNull
                 (JStr ''MHz'') (JNum 180) (JNum 65) (JStr ''BX8070811400'') 1])
   \<and> (\<exists>p'. query_get [Part_init (JStr ''Core i5'') (JStr ''CPU'') (JNum 2021) (JNum 2900) JNull
                         (JStr ''MHz'') (JNum 180) (JNum 65) (JStr ''BX8070811400'') 1] 1
              = Some p'
            \<and> boost_clock p' = JNull)
   \<and> modify_part [example_part] 1 example_payload
       = Inr ((JObj [(''status'', JNum 0), (''message'', JStr ''Part modified'')], 200),
              [Part_init (JStr ''Core i5'') (JStr ''CPU'') (JNum 2021) (JNum 2900) (JNum 4200)
                 (JStr ''MHz'') (JNum 180) (JNum 65) (JStr ''BX8070811400'') 1])
   \<and> (\<exists>p'. query_get [Part_init (JStr ''Core i5'') (JStr ''CPU'') (JNum 2021) (JNum 2900)
                         (JNum 4200) (JStr ''MHz'') (JNum 180) (JNum 65)
                         (JStr ''BX8070811400'') 1] 1
              = Some p'
            \<and> boost_clock p' = JNum 4200)"
proof -
  have b: "boost_clock example_part = JNum 4200"
    by (simp add: example_part_def Part_init_def)
  show ?thesis
    using boost_clock_omitted [OF query_get_example example_payload_keys(3),
        of "JObj [(''status'', JNum 0), (''message'', JStr ''Part details updated'')]"
           "[Part_init (JStr ''Core i5'') (JStr ''CPU'') (JNum 2021) (JNum 2900) JNull
               (JStr ''MHz'') (JNum 180) (JNum 65) (JStr ''BX8070811400'') 1]"
           "JObj [(''status'', JNum 0), (''message'', JStr ''Part modified'')]"
           "[Part_init (JStr ''Core i5'') (JStr ''CPU'') (JNum 2021) (JNum 2900) (JNum 4200)
               (JStr ''MHz'') (JNum 180) (JNum 65) (JStr ''BX8070811400'') 1]"]
      query_get_example example_payload_keys(3) update_part_example modify_part_example
    by (simp add: b)
qed


subsection \<open>What a partial update changes\<close>









subsection \<open>The type check of the full update\<close>






text \<open>
  The check is skipped when the type is a value that Python takes as false: a full update
  with the empty string as type is accepted, and the empty string is stored.
\<close>

lemma full_update_empty_type:
  "update_part [example_part] 1 empty_type_payload
   = Inr ((JObj [(''status'', JNum 0), (''message'', JStr ''Part details updated'')], 200),
          [Part_init (JStr ''Core i5'') (JStr []) (JNum 2021) (JNum 2900) JNull
             (JStr ''MHz'') (JNum 180) (JNum 65) (JStr ''BX8070811400'') 1])"
proof -
  have k: "\<not> has_key empty_type_payload ''id''"
    "\<forall>field \<in> set required_fields. has_key empty_type_payload field"
    by (simp_all add: empty_type_payload_def required_fields_def has_key_def)
  have v: "dict_get empty_type_payload ''name'' = JStr ''Core i5''"
    "dict_get empty_type_payload ''type'' = JStr []"
    "dict_get empty_type_payload ''release_date'' = JNum 2021"
    "dict_get empty_type_payload ''core_clock'' = JNum 2900"
    "dict_get empty_type_payload ''boost_clock'' = JNull"
    "dict_get empty_type_payload ''clock_unit'' = JStr ''MHz''"
    "dict_get empty_type_payload ''price'' = JNum 180"
    "dict_get empty_type_payload ''TDP'' = JNum 65"
    "dict_get empty_type_payload ''part_no'' = JStr ''BX8070811400''"
    by (simp_all add: empty_type_payload_def dict_get_def)
  show ?thesis
    unfolding update_part_checked [OF query_get_example k] v
    by (simp add: bind_exn_def session_update_def example_part_def Part_init_def)
qed

subsection \<open>The pattern of the type filter\<close>

lemma like_match_any: "like_match ''%'' s"
  by (induction s) simp_all

lemma like_match_percent:
  "like_match (CHR ''%'' # q) s \<longleftrightarrow> (\<exists>pre suf. s = pre @ suf \<and> like_match q suf)"
proof (induction s)
  case Nil
  then show ?case by simp
next
  case (Cons c cs)
  show ?case
  proof
    assume "like_match (CHR ''%'' # q) (c # cs)"
    then consider "like_match q (c # cs)" | "like_match (CHR ''%'' # q) cs"
      by auto
    then show "\<exists>pre suf. c # cs = pre @ suf \<and> like_match q suf"
    proof cases
      case 1
      then have "c # cs = [] @ (c # cs) \<and> like_match q (c # cs)" by simp
      then show ?thesis by blast
    next
      case 2
      with Cons.IH obtain pre suf where "cs = pre @ suf" "like_match q suf" by blast
      then have "c # cs = (c # pre) @ suf \<and> like_match q suf" by simp
      then show ?thesis by blast
    qed
  next
    assume "\<exists>pre suf. c # cs = pre @ suf \<and> like_match q suf"
    then obtain pre suf where s: "c # cs = pre @ suf" and m: "like_match q suf" by blast
    show "like_match (CHR ''%'' # q) (c # cs)"
    proof (cases pre)
      case Nil
      with s m show ?thesis by auto
    next
      case (Cons a pre')
      with s have "cs = pre' @ suf" by simp
      with m Cons.IH have "like_match (CHR ''%'' # q) cs" by blast
      then show ?thesis by simp
    qed
  qed
qed

lemma like_match_literal:
  assumes "CHR ''%'' \<notin> set w" and "CHR ''_'' \<notin> set w"
  shows "like_match (w @ ''%'') s \<longleftrightarrow> (\<exists>suf. s = w @ suf)"
  using assms
proof (induction w arbitrary: s)
  case Nil
  then show ?case by (simp add: like_match_any)
next
  case (Cons a w)
  then show ?case by (cases s) auto
qed

lemma like_match_contains:
  assumes "CHR ''%'' \<notin> set w" and "CHR ''_'' \<notin> set w"
  shows "like_match (CHR ''%'' # w @ ''%'') s \<longleftrightarrow> (\<exists>pre suf. s = pre @ w @ suf)"
proof -
  have "like_match (CHR ''%'' # w @ ''%'') s
        \<longleftrightarrow> (\<exists>pre suf. s = pre @ suf \<and> like_match (w @ ''%'') suf)"
    by (rule like_match_percent)
  also have "\<dots> \<longleftrightarrow> (\<exists>pre suf. s = pre @ w @ suf)"
    unfolding like_match_literal [OF assms] by blast
  finally show ?thesis .
qed

lemma lower_percent: "lower (CHR ''%'' # t @ ''%'') = CHR ''%'' # lower t @ ''%''"
  by (simp add: lower_def lower_char_def)

lemma ilike_contains:
  assumes "upper t \<in> set [''GPU'', ''CPU'']"
  shows "ilike v (''%'' @ t @ ''%'')
         \<longleftrightarrow> (\<exists>s pre suf. v = JStr s \<and> lower s = pre @ lower t @ suf)"
proof -
  from assms have "lower t \<in> set [''cpu'', ''gpu'']"
    using upper_valid_iff_lower_valid [of t] by auto
  then have w: "CHR ''%'' \<notin> set (lower t)" "CHR ''_'' \<notin> set (lower t)"
    by auto
  show ?thesis
    by (cases v) (simp_all add: ilike_def lower_percent like_match_contains [OF w])
qed

subsection \<open>Listing with a filter\<close>

text \<open>
  C3, amended: List with the filter value "GP" is rejected with InvalidType and status 400,
  as is every non-empty filter value whose uppercasing is not in {"GPU", "CPU"}, before any
  matching; a filter value whose uppercasing is "GPU" or "CPU" lists the parts whose type
  contains the filter value, letter case apart.
\<close>

theorem list_filter_gate:
  "(t \<noteq> [] \<and> upper t \<notin> set [''GPU'', ''CPU'']
      \<longrightarrow> get_part db (Some t) = Inr (part_type_invalid, db))
   \<and> get_part db (Some ''GP'') = Inr (part_type_invalid, db)
   \<and> (upper t \<in> set [''GPU'', ''CPU'']
      \<longrightarrow> get_part db (Some t)
          = list_response db
              (filter (\<lambda>p. \<exists>s pre suf. part_type p = JStr s \<and> lower s = pre @ lower t @ suf)
                 db))"
proof (intro conjI impI)
  assume "t \<noteq> [] \<and> upper t \<notin> set [''GPU'', ''CPU'']"
  then show "get_part db (Some t) = Inr (part_type_invalid, db)"
    by (simp add: get_part_def)
next
  show "get_part db (Some ''GP'') = Inr (part_type_invalid, db)"
    by (simp add: get_part_def upper_examples)
next
  assume v: "upper t \<in> set [''GPU'', ''CPU'']"
  then have "t \<noteq> []" by (auto simp add: upper_def)
  then show "get_part db (Some t)
      = list_response db
          (filter (\<lambda>p. \<exists>s pre suf. part_type p = JStr s \<and> lower s = pre @ lower t @ suf) db)"
    using v ilike_contains [OF v] by (simp add: get_part_def)
qed


subsection \<open>Listing the example tables\<close>

lemma example_types:
  "part_type example_part = JStr ''CPU''" "part_type example_gpu = JStr ''GPU''"
  by (simp_all add: example_part_def example_gpu_def Part_init_def)

lemma ilike_examples:
  "\<not> ilike (JStr ''CPU'') (''%'' @ ''gpu'' @ ''%'')"
  "ilike (JStr ''GPU'') (''%'' @ ''gpu'' @ ''%'')"
  by (simp_all add: ilike_def lower_def lower_char_def char_of_def bit_Suc_0_iff)

lemma py_round_examples:
  "py_round (1399 / 2) 2 = 1399 / 2"
  "py_round (1797 / 4) 2 = 1797 / 4"
  by (simp_all add: py_round_def round_half_even_def Let_def)

lemma list_response_gpu:
  "list_response [example_part, example_gpu] [example_gpu]
   = Inr ((JObj [(''status'', JNum 0), (''total'', JNum 1), (''average_price'', JNum (6995 / 10)),
                 (''parts'',
                  JArr [JObj [(''id'', JNum 2), (''name'', JStr ''RTX 3080''),
                              (''type'', JStr ''GPU''), (''price'', JNum (6995 / 10))]])],
           200), [example_part, example_gpu])"
proof -
  have p: "projection example_gpu
           = [(''id'', JNum 2), (''name'', JStr ''RTX 3080''), (''type'', JStr ''GPU''),
              (''price'', JNum (6995 / 10))]"
    by (simp add: projection_def example_gpu_def Part_init_def)
  show ?thesis
    unfolding list_response_def Let_def
    by (simp add: p dict_get_def bind_exn_def num_value_def py_round_examples)
qed

lemma list_response_all:
  "list_response [example_part, example_gpu] [example_part, example_gpu]
   = Inr ((JObj [(''status'', JNum 0), (''total'', JNum 2),
                 (''average_price'', JNum (44925 / 100)),
                 (''parts'',
                  JArr [JObj [(''id'', JNum 1), (''name'', JStr ''Ryzen 5''),
                              (''type'', JStr ''CPU''), (''price'', JNum 199)],
                        JObj [(''id'', JNum 2), (''name'', JStr ''RTX 3080''),
                              (''type'', JStr ''GPU''), (''price'', JNum (6995 / 10))]])],
           200), [example_part, example_gpu])"
proof -
  have p: "projection example_gpu
           = [(''id'', JNum 2), (''name'', JStr ''RTX 3080''), (''type'', JStr ''GPU''),
              (''price'', JNum (6995 / 10))]"
    "projection example_part
           = [(''id'', JNum 1), (''name'', JStr ''Ryzen 5''), (''type'', JStr ''CPU''),
              (''price'', JNum 199)]"
    by (simp_all add: projection_def example_gpu_def example_part_def Part_init_def)
  show ?thesis
    unfolding list_response_def Let_def
    by (simp add: p dict_get_def bind_exn_def num_value_def py_round_examples)
qed

lemma get_part_gpu:
  "get_part [example_part, example_gpu] (Some ''gpu'')
   = list_response [example_part, example_gpu] [example_gpu]"
  using ilike_examples by (simp add: get_part_def upper_examples example_types)


subsection \<open>The average price\<close>






lemma upper_xx: "upper ''xx'' = ''XX''"
  by (simp add: upper_def upper_char_def char_of_def bit_Suc_0_iff)

theorem list_filter_gate_witness:
  "upper ''gpu'' \<in> set [''GPU'', ''CPU'']
   \<and> get_part [example_part, example_gpu] (Some ''gpu'')
       = list_response [example_part, example_gpu]
           (filter (\<lambda>p. \<exists>s pre suf. part_type p = JStr s \<and> lower s = pre @ lower ''gpu'' @ suf)
              [example_part, example_gpu])
   \<and> get_part [example_part, example_gpu] (Some ''gpu'')
       = Inr ((JObj [(''status'', JNum 0), (''total'', JNum 1),
                     (''average_price'', JNum (6995 / 10)),
                     (''parts'',
                      JArr [JObj [(''id'', JNum 2), (''name'', JStr ''RTX 3080''),
                                  (''type'', JStr ''GPU''), (''price'', JNum (6995 / 10))]])],
               200), [example_part, example_gpu])
   \<and> ''xx'' \<noteq> []
   \<and> upper ''xx'' \<notin> set [''GPU'', ''CPU'']
   \<and> get_part [example_part, example_gpu] (Some ''xx'')
       = Inr (part_type_invalid, [example_part, example_gpu])"
proof -
  have g: "upper ''gpu'' \<in> set [''GPU'', ''CPU'']"
    by (simp add: upper_examples)
  have x: "''xx'' \<noteq> [] \<and> upper ''xx'' \<notin> set [''GPU'', ''CPU'']"
    by (simp add: upper_xx)
  have e: "get_part [example_part, example_gpu] (Some ''gpu'')
       = Inr ((JObj [(''status'', JNum 0), (''total'', JNum 1),
                     (''average_price'', JNum (6995 / 10)),
                     (''parts'',
                      JArr [JObj [(''id'', JNum 2), (''name'', JStr ''RTX 3080''),
                                  (''type'', JStr ''GPU''), (''price'', JNum (6995 / 10))]])],
               200), [example_part, example_gpu])"
    by (simp only: get_part_gpu list_response_gpu)
  show ?thesis
    using list_filter_gate [of "''gpu''" "[example_part, example_gpu]"]
      list_filter_gate [of "''xx''" "[example_part, example_gpu]"] g x e
    by blast
qed

text \<open>
  C3 as stated fails: the filter value "GP" is rejected with status 400 although the table
  holds a part of type "GPU".
\<close>

theorem list_filter_rejects_GP:
  "get_part [example_part, example_gpu] (Some ''GP'')
   = Inr (part_type_invalid, [example_part, example_gpu])
   \<and> snd part_type_invalid = 400
   \<and> part_type example_gpu = JStr ''GPU''"
  by (simp add: get_part_def upper_examples part_type_invalid_def example_types)





subsection \<open>The type of the stored parts\<close>

lemma query_get_member: "query_get db i = Some p \<Longrightarrow> p \<in> set db"
  by (auto simp add: query_get_def find_Some_iff)

lemma type_ok_nocase_exact: "type_ok v \<Longrightarrow> type_ok_nocase v"
  by (auto simp add: type_ok_def type_ok_nocase_def upper_examples)

lemma nocase_session_update:
  assumes "list_all (\<lambda>p. type_ok_nocase (part_type p)) db"
    and "type_ok_nocase (part_type p')"
  shows "list_all (\<lambda>p. type_ok_nocase (part_type p)) (session_update db p')"
  using assms by (auto simp add: session_update_def list_all_iff)

lemma add_part_cases:
  "add_part db data = Inr (part_type_invalid, db)
   \<or> add_part db data = Inr (id_supplied_error, db)
   \<or> (\<exists>body. add_part db data = Inr ((body, 400), db))
   \<or> (\<exists>body q. add_part db data = Inr ((body, 200), db @ [q]) \<and> type_ok (part_type q))"
proof (cases "filter (\<lambda>field. \<not> has_key data field) required_fields = []")
  case False
  then show ?thesis by (simp add: add_part_def)
next
  case True
  then have present: "\<forall>field \<in> set required_fields. has_key data field"
    by (simp add: no_missing_fields)
  show ?thesis
  proof (cases "has_key data ''id''")
    case True
    with \<open>filter (\<lambda>field. \<not> has_key data field) required_fields = []\<close> show ?thesis
      by (simp add: add_part_def)
  next
    case False
    show ?thesis
      unfolding add_part_valid [OF present False]
      by (simp add: type_ok_def Part_init_def)
  qed
qed

lemma add_part_keeps:
  assumes "list_all (\<lambda>p. P (part_type p)) db"
    and "\<And>v. type_ok v \<Longrightarrow> P v"
  shows "list_all (\<lambda>p. P (part_type p)) (storage_after db (add_part db data))"
  using add_part_cases [of db data] assms
  by (auto simp add: storage_after_def)

lemma update_part_keeps:
  assumes "list_all (\<lambda>p. type_ok_nocase (part_type p)) db"
    and "truthy (dict_get data ''type'')"
  shows "list_all (\<lambda>p. type_ok_nocase (part_type p)) (storage_after db (update_part db i data))"
proof (cases "query_get db i")
  case None
  then show ?thesis using assms(1) by (simp add: update_part_def storage_after_def)
next
  case (Some p)
  show ?thesis
  proof (cases "has_key data ''id''")
    case True
    then show ?thesis using assms(1) Some by (simp add: update_part_def storage_after_def)
  next
    case False
    show ?thesis
    proof (cases "filter (\<lambda>field. \<not> has_key data field) required_fields = []")
      case False
      then show ?thesis
        using assms(1) Some \<open>\<not> has_key data ''id''\<close>
        by (simp add: update_part_def storage_after_def)
    next
      case True
      then have present: "\<forall>field \<in> set required_fields. has_key data field"
        by (simp add: no_missing_fields)
      show ?thesis
      proof (cases "dict_get data ''type''")
        case (JStr s)
        show ?thesis
        proof (cases "upper s \<in> set [''CPU'', ''GPU'']")
          case True
          then have ok: "type_ok_nocase (JStr s)"
            by (simp add: type_ok_nocase_def)
          show ?thesis
            unfolding update_part_checked [OF Some False present] JStr
            using assms(2) True JStr
            by (auto simp add: bind_exn_def str_upper_def storage_after_def
                intro!: nocase_session_update [OF assms(1)] ok)
        next
          case False
          then show ?thesis
            unfolding update_part_checked [OF Some \<open>\<not> has_key data ''id''\<close> present] JStr
            using assms JStr
            by (auto simp add: bind_exn_def str_upper_def storage_after_def)
        qed
      qed (use assms in \<open>auto simp add: update_part_checked [OF Some False present] bind_exn_def
            str_upper_def storage_after_def\<close>)
    qed
  qed
qed


lemma modify_part_keeps:
  assumes "list_all (\<lambda>p. type_ok_nocase (part_type p)) db"
    and "is_dict data"
  shows "list_all (\<lambda>p. type_ok_nocase (part_type p)) (storage_after db (modify_part db i data))"
proof (cases "query_get db i")
  case None
  then show ?thesis using assms(1) by (simp add: modify_part_def storage_after_def)
next
  case (Some p)
  from query_get_member [OF Some] assms(1) have old: "type_ok_nocase (part_type p)"
    by (simp add: list_all_iff)
  have d: "distinct (map fst data)"
    using assms(2) by (simp add: is_dict_def)
  have stored: "part_type (foldl set_field p data)
                = (case map_of data ''type'' of Some v \<Rightarrow> v | None \<Rightarrow> part_type p)"
    by (rule foldl_set_field_sel [OF set_field_sel(3) d])
  show ?thesis
  proof (cases "has_key data ''id''")
    case True
    then show ?thesis using assms(1) Some by (simp add: modify_part_def storage_after_def)
  next
    case False
    note checked = modify_part_checked [OF Some False]
    show ?thesis
    proof (cases "map_of data ''type''")
      case None
      then have "\<not> has_key data ''type''" by (simp add: has_key_def)
      moreover have "type_ok_nocase (part_type (foldl set_field p data))"
        using stored None old by simp
      ultimately show ?thesis
        unfolding checked
        by (simp add: bind_exn_def storage_after_def nocase_session_update [OF assms(1)])
    next
      case (Some v)
      then have k: "has_key data ''type''" and g: "dict_get data ''type'' = v"
        by (simp_all add: has_key_def dict_get_def)
      show ?thesis
      proof (cases "\<exists>s. v = JStr s \<and> lower s \<in> set [''cpu'', ''gpu'']")
        case True
        then obtain s where s: "v = JStr s" "lower s \<in> set [''cpu'', ''gpu'']" by blast
        then have "upper s \<in> set [''CPU'', ''GPU'']"
          by (simp only: upper_valid_iff_lower_valid)
        then have "type_ok_nocase (part_type (foldl set_field p data))"
          using stored Some s(1) by (simp add: type_ok_nocase_def)
        then show ?thesis
          unfolding checked using k g s
          by (auto simp add: bind_exn_def str_lower_def storage_after_def
              nocase_session_update [OF assms(1)])
      next
        case False
        then show ?thesis
          unfolding checked using k g assms(1)
          by (cases v) (auto simp add: bind_exn_def str_lower_def storage_after_def)
      qed
    qed
  qed
qed

lemma apply_operation_keeps:
  assumes "list_all (\<lambda>p. type_ok_nocase (part_type p)) db"
    and "is_dict (payload_of op)"
    and "full_update_type_given op"
  shows "list_all (\<lambda>p. type_ok_nocase (part_type p)) (apply_operation db op)"
proof (cases op)
  case (Create data)
  then show ?thesis
    using add_part_keeps [OF assms(1) type_ok_nocase_exact] by simp
next
  case (FullUpdate i data)
  then show ?thesis
    using update_part_keeps [OF assms(1)] assms(3) by simp
next
  case (PartialUpdate i data)
  then show ?thesis
    using modify_part_keeps [OF assms(1)] assms(2) by simp
qed

lemma apply_create_keeps:
  assumes "list_all (\<lambda>p. type_ok (part_type p)) db"
  shows "list_all (\<lambda>p. type_ok (part_type p)) (apply_operation db (Create data))"
  using add_part_keeps [OF assms] by simp

text \<open>
  C1, amended: after any sequence of Create, FullUpdate and PartialUpdate requests in which
  every full update carries a type that Python takes as true, the type of every part in
  storage is "CPU" or "GPU" up to letter case, when this held before the sequence; after a
  sequence of Create requests alone it is exactly "CPU" or "GPU", when this held before.
  The payloads are dictionaries.
\<close>

theorem type_invariant:
  "(list_all (\<lambda>p. type_ok_nocase (part_type p)) db
      \<and> list_all (\<lambda>op. is_dict (payload_of op)) ops
      \<and> list_all full_update_type_given ops
     \<longrightarrow> list_all (\<lambda>p. type_ok_nocase (part_type p)) (run_operations db ops))
   \<and> (list_all (\<lambda>p. type_ok (part_type p)) db
     \<longrightarrow> list_all (\<lambda>p. type_ok (part_type p)) (run_operations db (map Create payloads)))"
proof (intro conjI impI)
  assume "list_all (\<lambda>p. type_ok_nocase (part_type p)) db
      \<and> list_all (\<lambda>op. is_dict (payload_of op)) ops
      \<and> list_all full_update_type_given ops"
  then show "list_all (\<lambda>p. type_ok_nocase (part_type p)) (run_operations db ops)"
    unfolding run_operations_def
  proof (induction ops arbitrary: db)
    case Nil
    then show ?case by simp
  next
    case (Cons op ops)
    then have "list_all (\<lambda>p. type_ok_nocase (part_type p)) (apply_operation db op)"
      by (simp add: apply_operation_keeps)
    with Cons show ?case by simp
  qed
next
  assume "list_all (\<lambda>p. type_ok (part_type p)) db"
  then show "list_all (\<lambda>p. type_ok (part_type p)) (run_operations db (map Create payloads))"
    unfolding run_operations_def
  proof (induction payloads arbitrary: db)
    case Nil
    then show ?case by simp
  next
    case (Cons data payloads)
    from apply_create_keeps [OF Cons.prems] Cons.IH show ?case by simp
  qed
qed


lemma example_payload_values:
  "dict_get example_payload ''name'' = JStr ''Core i5''"
  "dict_get example_payload ''release_date'' = JNum 2021"
  "dict_get example_payload ''core_clock'' = JNum 2900"
  "dict_get example_payload ''boost_clock'' = JNull"
  "dict_get example_payload ''clock_unit'' = JStr ''MHz''"
  "dict_get example_payload ''price'' = JNum 180"
  "dict_get example_payload ''TDP'' = JNum 65"
  "dict_get example_payload ''part_no'' = JStr ''BX8070811400''"
  by (simp_all add: example_payload_def dict_get_def)

lemma add_part_example:
  "storage_after db (add_part db example_payload)
   = db @ [Part_init (JStr ''Core i5'') (JStr ''CPU'') (JNum 2021) (JNum 2900) JNull
             (JStr ''MHz'') (JNum 180) (JNum 65) (JStr ''BX8070811400'') (next_id db)]"
proof -
  have present: "\<forall>field \<in> set required_fields. has_key example_payload field"
    using example_payload_keys(1) by (simp only: no_missing_fields)
  show ?thesis
    unfolding add_part_valid [OF present example_payload_keys(2)] example_payload_keys(4)
      example_payload_values
    by (simp add: storage_after_def)
qed

lemma next_id_examples: "next_id [] = 1" "next_id [example_part] = 2"
  by (simp_all add: next_id_def example_part_def Part_init_def)

text \<open>
  C1 as stated fails: a part is created with the type "CPU" in an empty table, and the
  partial update of its type to "cpu" is accepted and stored.
\<close>

theorem partial_update_stores_lowercase:
  "map part_type
     (run_operations [] [Create example_payload, PartialUpdate 1 [(''type'', JStr ''cpu'')]])
   = [JStr ''cpu'']
   \<and> JStr ''cpu'' \<notin> set [JStr ''CPU'', JStr ''GPU'']"
proof -
  let ?created = "Part_init (JStr ''Core i5'') (JStr ''CPU'') (JNum 2021) (JNum 2900) JNull
             (JStr ''MHz'') (JNum 180) (JNum 65) (JStr ''BX8070811400'') 1"
  have c: "apply_operation [] (Create example_payload) = [?created]"
    using add_part_example [of "[]"] by (simp add: next_id_examples)
  have q: "query_get [?created] 1 = Some ?created"
    by (simp add: query_get_def Part_init_def)
  have k: "\<not> has_key [(''type'', JStr ''cpu'')] ''id''" "has_key [(''type'', JStr ''cpu'')] ''type''"
    "dict_get [(''type'', JStr ''cpu'')] ''type'' = JStr ''cpu''"
    by (simp_all add: has_key_def dict_get_def)
  have m: "apply_operation [?created] (PartialUpdate 1 [(''type'', JStr ''cpu'')])
           = [?created\<lparr>part_type := JStr ''cpu''\<rparr>]"
    unfolding apply_operation.simps modify_part_checked [OF q k(1)]
    by (simp add: k bind_exn_def str_lower_def lower_examples storage_after_def
        session_update_def set_field_def)
  have r: "run_operations [] [Create example_payload, PartialUpdate 1 [(''type'', JStr ''cpu'')]]
           = [?created\<lparr>part_type := JStr ''cpu''\<rparr>]"
    by (simp only: run_operations_def foldl.simps c m)
  show ?thesis
    unfolding r by (simp add: Part_init_def)
qed

theorem type_invariant_witness:
  "list_all (\<lambda>p. type_ok_nocase (part_type p)) [example_part]
   \<and> list_all (\<lambda>op. is_dict (payload_of op))
       [Create example_payload, FullUpdate 1 lowercase_payload, PartialUpdate 2 patch_payload]
   \<and> list_all full_update_type_given
       [Create example_payload, FullUpdate 1 lowercase_payload, PartialUpdate 2 patch_payload]
   \<and> list_all (\<lambda>p. type_ok_nocase (part_type p))
       (run_operations [example_part]
          [Create example_payload, FullUpdate 1 lowercase_payload, PartialUpdate 2 patch_payload])
   \<and> list_all (\<lambda>p. type_ok (part_type p)) [example_part]
   \<and> list_all (\<lambda>p. type_ok (part_type p))
       (run_operations [example_part] (map Create [example_payload]))"
proof -
  have a: "list_all (\<lambda>p. type_ok_nocase (part_type p)) [example_part]"
    by (simp add: example_part_def Part_init_def type_ok_nocase_def upper_examples)
  have b: "list_all (\<lambda>op. is_dict (payload_of op))
       [Create example_payload, FullUpdate 1 lowercase_payload, PartialUpdate 2 patch_payload]"
    by (simp add: is_dict_def example_payload_def lowercase_payload_def patch_payload_def)
  have c: "list_all full_update_type_given
       [Create example_payload, FullUpdate 1 lowercase_payload, PartialUpdate 2 patch_payload]"
    by (simp add: lowercase_payload_def dict_get_def)
  have d: "list_all (\<lambda>p. type_ok (part_type p)) [example_part]"
    by (simp add: example_part_def Part_init_def type_ok_def)
  show ?thesis
    using type_invariant [of "[example_part]"
        "[Create example_payload, FullUpdate 1 lowercase_payload, PartialUpdate 2 patch_payload]"
        "[example_payload]"] a b c d
    by blast
qed

end
